theory Spec2Isabelle
  imports Main
begin

section \<open>JavaScript values used by the client\<close>

text \<open>
  The decoded body of a response (\<^verbatim>\<open>await r.json()\<close>) is a JSON value. A number is held
  as the text that \<^verbatim>\<open>String(n)\<close> gives for it, so that no floating point arithmetic is
  needed: the only operations the client applies to such a value are the truth test
  (\<^verbatim>\<open>!x\<close>, \<^verbatim>\<open>x || y\<close>) and the conversion to a string done by \<^verbatim>\<open>new Error(x)\<close>.
  An object is the list of its members in the order of the text; \<^verbatim>\<open>JSON.parse\<close> keeps the
  last of several members of one name.
\<close>

datatype json =
    JNull
  | JBool bool
  | JNum string
  | JStr string
  | JArr "json list"
  | JObj "(string \<times> json) list"

text \<open>The truth test of JavaScript; \<^verbatim>\<open>undefined\<close> is \<open>None\<close>.\<close>

fun truthy :: "json \<Rightarrow> bool" where
  "truthy JNull = False"
| "truthy (JBool b) = b"
| "truthy (JNum n) = (n \<noteq> ''0'')"
| "truthy (JStr s) = (s \<noteq> [])"
| "truthy (JArr xs) = True"
| "truthy (JObj ms) = True"

fun truthy_opt :: "json option \<Rightarrow> bool" where
  "truthy_opt None = False"
| "truthy_opt (Some v) = truthy v"

fun join_comma :: "string list \<Rightarrow> string" where
  "join_comma [] = []"
| "join_comma [s] = s"
| "join_comma (s # t # ss) = s @ '','' @ join_comma (t # ss)"

text \<open>What the client's code can throw or reject with. The message of a \<^verbatim>\<open>TypeError\<close> or
  \<^verbatim>\<open>SyntaxError\<close> is chosen by the JavaScript engine; the two texts fixed here stand for
  whatever the engine says.\<close>

datatype exn = Error string | TypeError string | SyntaxError string

fun message :: "exn \<Rightarrow> string" where
  "message (Error m) = m"
| "message (TypeError m) = m"
| "message (SyntaxError m) = m"

definition null_property_message :: string where
  "null_property_message = ''Cannot read properties of null''"

definition not_primitive_message :: string where
  "not_primitive_message = ''Cannot convert object to primitive value''"

text \<open>\<^verbatim>\<open>v.name\<close>: reading a property of \<^verbatim>\<open>null\<close> throws, a missing property is
  \<^verbatim>\<open>undefined\<close>; a string, number, boolean or array has no property of the names read here.\<close>

fun get_prop :: "json \<Rightarrow> string \<Rightarrow> exn + json option" where
  "get_prop JNull name = Inl (TypeError null_property_message)"
| "get_prop (JObj ms) name = Inr (map_of (rev ms) name)"
| "get_prop v name = Inr None"

text \<open>
  \<^verbatim>\<open>String(v)\<close>, the conversion that \<^verbatim>\<open>new Error(v)\<close> applies to its argument. An array
  joins its elements with commas, from left to right, a \<^verbatim>\<open>null\<close> element as the empty
  string. An object is converted by its \<^verbatim>\<open>toString\<close>: one decoded from JSON gives
  \<^verbatim>\<open>[object Object]\<close> by the inherited method, unless it has a member of its own named
  \<^verbatim>\<open>toString\<close>, which is then a JSON value and no function, and the conversion throws a
  \<^verbatim>\<open>TypeError\<close>.
\<close>

fun to_string :: "json \<Rightarrow> exn + string"
  and strings_of :: "json list \<Rightarrow> exn + string list" where
  "to_string JNull = Inr ''null''"
| "to_string (JBool b) = Inr (if b then ''true'' else ''false'')"
| "to_string (JNum n) = Inr n"
| "to_string (JStr s) = Inr s"
| "to_string (JArr xs) =
     (case strings_of xs of Inl e \<Rightarrow> Inl e | Inr ss \<Rightarrow> Inr (join_comma ss))"
| "to_string (JObj ms) =
     (case map_of (rev ms) ''toString'' of
        Some v \<Rightarrow> Inl (TypeError not_primitive_message)
      | None \<Rightarrow> Inr ''[object Object]'')"
| "strings_of [] = Inr []"
| "strings_of (x # xs) =
     (case (case x of JNull \<Rightarrow> Inr [] | _ \<Rightarrow> to_string x) of
        Inl e \<Rightarrow> Inl e
      | Inr s \<Rightarrow> (case strings_of xs of Inl e \<Rightarrow> Inl e | Inr ss \<Rightarrow> Inr (s # ss)))"

section \<open>The API layer (App.jsx, the object \<^verbatim>\<open>api\<close>)\<close>

datatype payload = FormData "(string \<times> string) list" | JsonText json

record opts =
  method' :: "string option"
  headers :: "(string \<rightharpoonup> string) option"
  body :: "payload option"

text \<open>A call of \<^verbatim>\<open>fetch(url, {...opts, headers: h})\<close> as it leaves the page.\<close>

record sent_request =
  url :: string
  smethod :: "string option"
  sheaders :: "string \<rightharpoonup> string"
  sbody :: "payload option"

datatype rbody = Json json | NotJson string

record response =
  status :: nat
  rbody :: rbody

text \<open>\<^verbatim>\<open>r.ok\<close> of the Fetch API: the status is in the range 200 to 299.\<close>

definition ok :: "response \<Rightarrow> bool" where
  "ok r = (200 \<le> status r \<and> status r \<le> 299)"

text \<open>\<^verbatim>\<open>fetch\<close> rejects with a \<^verbatim>\<open>TypeError\<close> when the request cannot be made (no network),
  and resolves with the response otherwise, whatever its status.\<close>

datatype fetch_outcome = Rejected string | Resolved response

text \<open>
  The state the object \<^verbatim>\<open>api\<close> works on: its field \<^verbatim>\<open>token\<close> (\<open>None\<close> is \<^verbatim>\<open>null\<close>),
  \<^verbatim>\<open>localStorage\<close>, the number of calls of \<^verbatim>\<open>window.location.reload()\<close> so far, and
  the requests handed to \<^verbatim>\<open>fetch\<close>, oldest first. \<open>vite_api_url\<close> is the build-time
  variable \<^verbatim>\<open>import.meta.env.VITE_API_URL\<close>.
\<close>

record api_state =
  vite_api_url :: "string option"
  token :: "string option"
  storage :: "string \<rightharpoonup> string"
  reloads :: nat
  sent :: "sent_request list"

definition API :: "api_state \<Rightarrow> string" where
  "API st = (case vite_api_url st of
               None \<Rightarrow> ''http://localhost:8000''
             | Some u \<Rightarrow> if u \<noteq> [] then u else ''http://localhost:8000'') @ ''/api''"

definition setToken :: "api_state \<Rightarrow> string \<Rightarrow> api_state" where
  "setToken st t = st\<lparr>token := Some t, storage := (storage st)(''ns_token'' \<mapsto> t)\<rparr>"

definition clear :: "api_state \<Rightarrow> api_state" where
  "clear st = st\<lparr>token := None, storage := (storage st)(''ns_token'' := None)\<rparr>"

definition reload :: "api_state \<Rightarrow> api_state" where
  "reload st = st\<lparr>reloads := Suc (reloads st)\<rparr>"

text \<open>Loading the page evaluates the module again:
  \<^verbatim>\<open>token: localStorage.getItem("ns_token")\<close>.\<close>

definition page_load :: "api_state \<Rightarrow> api_state" where
  "page_load st = st\<lparr>token := storage st ''ns_token''\<rparr>"

text \<open>\<^verbatim>\<open>useState(!!api.token)\<close> in \<^verbatim>\<open>App\<close>: a string is true unless it is empty.\<close>

definition authed :: "api_state \<Rightarrow> bool" where
  "authed st = (case token st of None \<Rightarrow> False | Some t \<Rightarrow> t \<noteq> [])"

definition is_FormData :: "payload option \<Rightarrow> bool" where
  "is_FormData b = (case b of Some (FormData fd) \<Rightarrow> True | _ \<Rightarrow> False)"

text \<open>
  \<^verbatim>\<open>api.req\<close> is an \<^verbatim>\<open>async\<close> function: the part before \<^verbatim>\<open>await fetch(...)\<close> runs at
  the call (\<open>req_send\<close>), the part after it when the response arrives (\<open>req_recv\<close>).
\<close>

definition req_send :: "api_state \<Rightarrow> string \<Rightarrow> opts \<Rightarrow> api_state" where
  "req_send st path opts =
    (let h0 = (case headers opts of None \<Rightarrow> Map.empty | Some h \<Rightarrow> h);
         h1 = (case token st of
                 None \<Rightarrow> h0
               | Some t \<Rightarrow> if t \<noteq> [] then h0(''Authorization'' \<mapsto> ''Bearer '' @ t) else h0);
         h2 = (if \<not> is_FormData (body opts)
               then h1(''Content-Type'' \<mapsto> ''application/json'') else h1)
     in st\<lparr>sent := sent st @
          [\<lparr>url = API st @ path, smethod = method' opts, sheaders = h2, sbody = body opts\<rparr>]\<rparr>)"

text \<open>\<^verbatim>\<open>(await r.json().catch(() => ({}))).detail || "Failed"\<close>, given to \<^verbatim>\<open>new Error\<close>.\<close>

definition failure_of :: "rbody \<Rightarrow> exn" where
  "failure_of b =
    (case get_prop (case b of Json v \<Rightarrow> v | NotJson m \<Rightarrow> JObj []) ''detail'' of
       Inl e \<Rightarrow> e
     | Inr d \<Rightarrow>
         (case d of
            None \<Rightarrow> Error ''Failed''
          | Some v \<Rightarrow>
              if truthy v then (case to_string v of Inl e \<Rightarrow> e | Inr m \<Rightarrow> Error m)
              else Error ''Failed''))"

definition req_recv :: "api_state \<Rightarrow> fetch_outcome \<Rightarrow> api_state \<times> (exn + json)" where
  "req_recv st out =
    (case out of
       Rejected m \<Rightarrow> (st, Inl (TypeError m))
     | Resolved r \<Rightarrow>
         (let st' = (if status r = 401 then reload (clear st) else st)
          in if \<not> ok r then (st', Inl (failure_of (rbody r)))
             else (st', case rbody r of Json v \<Rightarrow> Inr v | NotJson m \<Rightarrow> Inl (SyntaxError m))))"

definition req :: "api_state \<Rightarrow> string \<Rightarrow> opts \<Rightarrow> fetch_outcome \<Rightarrow> api_state \<times> (exn + json)" where
  "req st path opts out = req_recv (req_send st path opts) out"

definition no_opts :: opts where
  "no_opts = \<lparr>method' = None, headers = None, body = None\<rparr>"

definition api_get :: "api_state \<Rightarrow> string \<Rightarrow> fetch_outcome \<Rightarrow> api_state \<times> (exn + json)" where
  "api_get st p out = req st p no_opts out"

text \<open>\<^verbatim>\<open>api.post(p, b)\<close>: \<open>b\<close> is a \<^verbatim>\<open>FormData\<close>, or a value that \<^verbatim>\<open>JSON.stringify\<close> turns
  into text; \<^verbatim>\<open>JSON.stringify(undefined)\<close> is \<^verbatim>\<open>undefined\<close>, no body.\<close>

definition api_post ::
  "api_state \<Rightarrow> string \<Rightarrow> payload option \<Rightarrow> fetch_outcome \<Rightarrow> api_state \<times> (exn + json)" where
  "api_post st p b out = req st p \<lparr>method' = Some ''POST'', headers = None, body = b\<rparr> out"

definition api_put :: "api_state \<Rightarrow> string \<Rightarrow> json \<Rightarrow> fetch_outcome \<Rightarrow> api_state \<times> (exn + json)" where
  "api_put st p b out =
     req st p \<lparr>method' = Some ''PUT'', headers = None, body = Some (JsonText b)\<rparr> out"

definition api_del :: "api_state \<Rightarrow> string \<Rightarrow> fetch_outcome \<Rightarrow> api_state \<times> (exn + json)" where
  "api_del st p out = req st p \<lparr>method' = Some ''DELETE'', headers = None, body = None\<rparr> out"

subsection \<open>A session: calls, answers, logins, logouts and page loads in any order\<close>

datatype api_call =
    Get string
  | Post string "payload option"
  | Put string json
  | Del string

fun call :: "api_state \<Rightarrow> api_call \<Rightarrow> fetch_outcome \<Rightarrow> api_state \<times> (exn + json)" where
  "call st (Get p) out = api_get st p out"
| "call st (Post p b) out = api_post st p b out"
| "call st (Put p b) out = api_put st p b out"
| "call st (Del p) out = api_del st p out"

text \<open>The path and the options that a call hands to \<^verbatim>\<open>api.req\<close>.\<close>

fun call_path :: "api_call \<Rightarrow> string" where
  "call_path (Get p) = p"
| "call_path (Post p b) = p"
| "call_path (Put p b) = p"
| "call_path (Del p) = p"

fun call_opts :: "api_call \<Rightarrow> opts" where
  "call_opts (Get p) = no_opts"
| "call_opts (Post p b) = \<lparr>method' = Some ''POST'', headers = None, body = b\<rparr>"
| "call_opts (Put p b) = \<lparr>method' = Some ''PUT'', headers = None, body = Some (JsonText b)\<rparr>"
| "call_opts (Del p) = \<lparr>method' = Some ''DELETE'', headers = None, body = None\<rparr>"

text \<open>
  Calls may overlap: \<open>Begin c\<close> is a call up to its \<^verbatim>\<open>await fetch(...)\<close>, \<open>Answer out\<close> the
  rest of a call that is waiting, run when \<^verbatim>\<open>fetch\<close> settles. \<open>Login t\<close> is
  \<^verbatim>\<open>api.setToken(r.token)\<close> of the login screen (lines 125 and 135), \<open>Logout\<close> the
  \<^verbatim>\<open>api.clear()\<close> of the profile screen (line 1244), \<open>PageLoad\<close> a load of the page, which
  evaluates the module again.
\<close>

datatype session_event =
    Begin api_call
  | Answer fetch_outcome
  | Login string
  | Logout
  | PageLoad

fun session_step :: "api_state \<Rightarrow> session_event \<Rightarrow> api_state" where
  "session_step st (Begin c) = req_send st (call_path c) (call_opts c)"
| "session_step st (Answer out) = fst (req_recv st out)"
| "session_step st (Login t) = setToken st t"
| "session_step st Logout = clear st"
| "session_step st PageLoad = page_load st"

fun session_run :: "api_state \<Rightarrow> session_event list \<Rightarrow> api_state" where
  "session_run st [] = st"
| "session_run st (ev # evs) = session_run (session_step st ev) evs"

text \<open>The requests that left the page during a run that started in \<open>st\<close>.\<close>

definition sent_during :: "api_state \<Rightarrow> session_event list \<Rightarrow> sent_request list" where
  "sent_during st evs = drop (length (sent st)) (sent (session_run st evs))"

section \<open>The scanner screen and its paywall (App.jsx, \<^verbatim>\<open>ScannerScreen\<close>, \<^verbatim>\<open>PaywallScreen\<close>)\<close>

text \<open>The \<^verbatim>\<open>useState\<close> cells of \<^verbatim>\<open>ScannerScreen\<close>; \<open>None\<close> is \<^verbatim>\<open>null\<close>, also when
  the value put into the cell is the \<^verbatim>\<open>null\<close> of a decoded body. The cell \<^verbatim>\<open>file\<close> is
  \<open>file'\<close> here, and a file is held as its content.\<close>

record scanner =
  image :: "string option"
  file' :: "string option"
  mealType :: nat
  result :: "json option"
  loading :: bool
  error :: "string option"
  showPaywall :: bool
  subChecked :: bool

definition scanner_init :: scanner where
  "scanner_init = \<lparr>image = None, file' = None, mealType = 1, result = None, loading = False,
     error = None, showPaywall = False, subChecked = False\<rparr>"

definition mealTypes :: "string list" where
  "mealTypes = [''breakfast'', ''lunch'', ''dinner'', ''snack'']"

text \<open>The effect run when the screen is mounted (lines 440 to 445): the callback of
  \<^verbatim>\<open>then\<close> reads \<^verbatim>\<open>s.active\<close>, and \<^verbatim>\<open>catch\<close> takes both a failed call and an exception
  of that callback.\<close>

definition check_subscription ::
  "api_state \<Rightarrow> scanner \<Rightarrow> fetch_outcome \<Rightarrow> api_state \<times> scanner" where
  "check_subscription st sc out =
    (let (st', res) = api_get st ''/subscription/status'' out
     in (st', case res of
                Inl e \<Rightarrow> sc\<lparr>subChecked := True\<rparr>
              | Inr s \<Rightarrow>
                  (case get_prop s ''active'' of
                     Inl e \<Rightarrow> sc\<lparr>subChecked := True\<rparr>
                   | Inr a \<Rightarrow>
                       (if \<not> truthy_opt a then sc\<lparr>showPaywall := True\<rparr> else sc)
                         \<lparr>subChecked := True\<rparr>)))"

text \<open>\<^verbatim>\<open>scan\<close> (lines 455 to 471).\<close>

definition scan :: "api_state \<Rightarrow> scanner \<Rightarrow> fetch_outcome \<Rightarrow> api_state \<times> scanner" where
  "scan st sc out =
    (case file' sc of
       None \<Rightarrow> (st, sc)
     | Some f \<Rightarrow>
         (let sc1 = sc\<lparr>loading := True, error := None\<rparr>;
              fd = FormData [(''photo'', f),
                     (''meal_type'', if mealType sc < length mealTypes
                                     then mealTypes ! mealType sc else ''undefined'')];
              (st', res) = api_post st ''/meals/analyze'' (Some fd) out;
              sc2 = (case res of
                       Inr v \<Rightarrow> sc1\<lparr>result := (case v of JNull \<Rightarrow> None | _ \<Rightarrow> Some v)\<rparr>
                     | Inl e \<Rightarrow>
                         if message e = ''subscription_required''
                         then sc1\<lparr>showPaywall := True\<rparr>
                         else sc1\<lparr>error := Some (message e)\<rparr>)
          in (st', sc2\<lparr>loading := False\<rparr>)))"

text \<open>What \<^verbatim>\<open>ScannerScreen\<close> renders (lines 475 to 477 and below).\<close>

datatype view = LoadingView | PaywallView | ScannerView

definition scanner_view :: "scanner \<Rightarrow> view" where
  "scanner_view sc =
     (if \<not> subChecked sc then LoadingView
      else if showPaywall sc then PaywallView else ScannerView)"

record paywall =
  subInfo :: "json option"
  paying :: bool
  perror :: "string option"

definition paywall_init :: paywall where
  "paywall_init = \<lparr>subInfo = None, paying = False, perror = None\<rparr>"

text \<open>\<^verbatim>\<open>onPaid\<close> as \<^verbatim>\<open>ScannerScreen\<close> passes it: \<^verbatim>\<open>() => setShowPaywall(false)\<close>.\<close>

definition onPaid :: "scanner \<Rightarrow> scanner" where
  "onPaid sc = sc\<lparr>showPaywall := False\<rparr>"

text \<open>The effect of \<^verbatim>\<open>PaywallScreen\<close> (lines 306 to 308).\<close>

definition load_subInfo :: "api_state \<Rightarrow> paywall \<Rightarrow> fetch_outcome \<Rightarrow> api_state \<times> paywall" where
  "load_subInfo st pw out =
    (let (st', res) = api_get st ''/subscription/status'' out
     in (st', case res of Inl e \<Rightarrow> pw | Inr s \<Rightarrow> pw\<lparr>subInfo := Some s\<rparr>))"

text \<open>
  \<^verbatim>\<open>handlePayment\<close> (lines 310 to 351) up to \<^verbatim>\<open>rzp.open()\<close>. The checkout widget is not
  part of the repository: \<open>widget\<close> is the exception its construction or opening throws,
  if any. Building \<^verbatim>\<open>options\<close> reads properties of \<^verbatim>\<open>order\<close>, which throws when the order
  is \<^verbatim>\<open>null\<close>.
\<close>

definition handlePayment ::
  "api_state \<Rightarrow> paywall \<Rightarrow> fetch_outcome \<Rightarrow> exn option \<Rightarrow> api_state \<times> paywall" where
  "handlePayment st pw out widget =
    (let pw1 = pw\<lparr>paying := True, perror := None\<rparr>;
         (st', res) = api_post st ''/subscription/create-order'' None out;
         failed = (\<lambda>e. pw1\<lparr>perror := Some (message e), paying := False\<rparr>)
     in (st', case res of
                Inl e \<Rightarrow> failed e
              | Inr order \<Rightarrow>
                  (case get_prop order ''key_id'' of
                     Inl e \<Rightarrow> failed e
                   | Inr k \<Rightarrow> (case widget of Some e \<Rightarrow> failed e | None \<Rightarrow> pw1))))"

text \<open>The confirmation the widget hands to \<^verbatim>\<open>handler\<close>.\<close>

record confirmation =
  razorpay_order_id :: string
  razorpay_payment_id :: string
  razorpay_signature :: string

definition verification_failed :: string where
  "verification_failed = ''Payment verification failed. Contact support.''"

text \<open>\<^verbatim>\<open>handler\<close> (lines 324 to 335), the widget's callback for a completed payment.\<close>

definition handler ::
  "api_state \<Rightarrow> scanner \<Rightarrow> paywall \<Rightarrow> confirmation \<Rightarrow> fetch_outcome
     \<Rightarrow> api_state \<times> scanner \<times> paywall" where
  "handler st sc pw c out =
    (let (st', res) = api_post st ''/subscription/verify''
            (Some (JsonText (JObj
               [(''razorpay_order_id'', JStr (razorpay_order_id c)),
                (''razorpay_payment_id'', JStr (razorpay_payment_id c)),
                (''razorpay_signature'', JStr (razorpay_signature c))]))) out
     in case res of
          Inr v \<Rightarrow> (st', onPaid sc, pw)
        | Inl e \<Rightarrow> (st', sc, pw\<lparr>perror := Some verification_failed\<rparr>))"

text \<open>The listener of \<^verbatim>\<open>payment.failed\<close> (lines 342 to 345), given
  \<^verbatim>\<open>resp.error?.description\<close>, and \<^verbatim>\<open>ondismiss\<close> (line 337).\<close>

definition payment_failed :: "paywall \<Rightarrow> string option \<Rightarrow> paywall" where
  "payment_failed pw d =
     pw\<lparr>perror := Some (case d of None \<Rightarrow> ''Payment failed''
                          | Some s \<Rightarrow> if s \<noteq> [] then s else ''Payment failed''),
        paying := False\<rparr>"

definition ondismiss :: "paywall \<Rightarrow> paywall" where
  "ondismiss pw = pw\<lparr>paying := False\<rparr>"

subsection \<open>The screen as a machine driven by the user, the server and the widget\<close>

record ui =
  api :: api_state
  scanner :: scanner
  pay :: paywall

datatype ui_event =
    StatusArrived fetch_outcome
  | ScanClicked fetch_outcome
  | PaywallStatusArrived fetch_outcome
  | PayClicked fetch_outcome "exn option"
  | PaymentSucceeded confirmation fetch_outcome
  | PaymentFailed "string option"
  | Dismissed

text \<open>\<^verbatim>\<open>PaywallScreen\<close> exists while it is rendered; its cells start afresh at each mount.\<close>

definition unmount_paywall :: "ui \<Rightarrow> ui" where
  "unmount_paywall u =
     (if scanner_view (scanner u) = PaywallView then u else u\<lparr>pay := paywall_init\<rparr>)"

text \<open>
  The button bound to \<^verbatim>\<open>scan\<close> is rendered in the scanner view only (the two early
  \<^verbatim>\<open>return\<close>s of lines 475 and 477 come first), the one bound to \<^verbatim>\<open>handlePayment\<close> in
  the paywall only, and it is disabled while \<^verbatim>\<open>paying\<close>. The callbacks of the widget and
  the answers of the server come when they come.
\<close>

definition ui_step :: "ui \<Rightarrow> ui_event \<Rightarrow> ui" where
  "ui_step u ev = unmount_paywall
    (case ev of
       StatusArrived out \<Rightarrow>
         (let (st', sc') = check_subscription (api u) (scanner u) out
          in u\<lparr>api := st', scanner := sc'\<rparr>)
     | ScanClicked out \<Rightarrow>
         (if scanner_view (scanner u) = ScannerView
          then (let (st', sc') = scan (api u) (scanner u) out in u\<lparr>api := st', scanner := sc'\<rparr>)
          else u)
     | PaywallStatusArrived out \<Rightarrow>
         (let (st', pw') = load_subInfo (api u) (pay u) out in u\<lparr>api := st', pay := pw'\<rparr>)
     | PayClicked out widget \<Rightarrow>
         (if scanner_view (scanner u) = PaywallView \<and> \<not> paying (pay u)
          then (let (st', pw') = handlePayment (api u) (pay u) out widget
                in u\<lparr>api := st', pay := pw'\<rparr>)
          else u)
     | PaymentSucceeded c out \<Rightarrow>
         (let (st', sc', pw') = handler (api u) (scanner u) (pay u) c out
          in u\<lparr>api := st', scanner := sc', pay := pw'\<rparr>)
     | PaymentFailed d \<Rightarrow> u\<lparr>pay := payment_failed (pay u) d\<rparr>
     | Dismissed \<Rightarrow> u\<lparr>pay := ondismiss (pay u)\<rparr>)"

fun ui_run :: "ui \<Rightarrow> ui_event list \<Rightarrow> ui" where
  "ui_run u [] = u"
| "ui_run u (ev # evs) = ui_run (ui_step u ev) evs"

text \<open>A call of the API layer succeeds when \<^verbatim>\<open>fetch\<close> resolves with a status from 200 to
  299 and a body that is JSON.\<close>

fun succeeds :: "fetch_outcome \<Rightarrow> bool" where
  "succeeds (Rejected m) = False"
| "succeeds (Resolved r) = (ok r \<and> (case rbody r of Json v \<Rightarrow> True | NotJson m \<Rightarrow> False))"

fun verified :: "ui_event \<Rightarrow> bool" where
  "verified (PaymentSucceeded c out) = succeeds out"
| "verified ev = False"

section \<open>The dashboard (App.jsx, \<^verbatim>\<open>DashboardScreen.load\<close>)\<close>

record dashboard =
  today :: "json option"
  history :: "json option"
  stats :: "json option"
  dloading :: bool

text \<open>
  \<^verbatim>\<open>load\<close> (lines 724 to 731): the three calls are made one after the other before any
  answer is awaited, so the three requests leave first; \<^verbatim>\<open>Promise.all\<close> resolves with the
  three values when all three calls do and rejects as soon as one rejects; \<^verbatim>\<open>then\<close> has no
  handler for a rejection, \<^verbatim>\<open>finally\<close> runs in both cases. The answers are taken here in
  the order of the calls.
\<close>

definition load ::
  "api_state \<Rightarrow> dashboard \<Rightarrow> fetch_outcome \<Rightarrow> fetch_outcome \<Rightarrow> fetch_outcome
     \<Rightarrow> api_state \<times> dashboard" where
  "load st d o1 o2 o3 =
    (let st1 = req_send st ''/dashboard/today'' no_opts;
         st2 = req_send st1 ''/dashboard/history?days=7'' no_opts;
         st3 = req_send st2 ''/dashboard/stats'' no_opts;
         (st4, r1) = req_recv st3 o1;
         (st5, r2) = req_recv st4 o2;
         (st6, r3) = req_recv st5 o3
     in (st6, (case (r1, r2, r3) of
                 (Inr t, Inr h, Inr s) \<Rightarrow> d\<lparr>today := Some t, history := Some h, stats := Some s\<rparr>
               | _ \<Rightarrow> d)\<lparr>dloading := False\<rparr>))"

section \<open>The service worker (sw.js)\<close>
























section \<open>Notions used in the statements\<close>

text \<open>A call made through \<^verbatim>\<open>api.get\<close>, \<^verbatim>\<open>api.post\<close>, \<^verbatim>\<open>api.put\<close> or \<^verbatim>\<open>api.del\<close> passes
  no headers of its own.\<close>

definition plain :: "opts \<Rightarrow> bool" where
  "plain opts = (headers opts = None)"

text \<open>The credential a request carries, if any, is one of \<open>T\<close>; the credentials the
  page holds, in \<^verbatim>\<open>api.token\<close> and in \<^verbatim>\<open>localStorage\<close>, are among \<open>T\<close>.\<close>

definition from_tokens :: "string set \<Rightarrow> sent_request \<Rightarrow> bool" where
  "from_tokens T q =
     (case sheaders q ''Authorization'' of None \<Rightarrow> True | Some h \<Rightarrow> \<exists>t\<in>T. h = ''Bearer '' @ t)"

definition held_in :: "string set \<Rightarrow> api_state \<Rightarrow> bool" where
  "held_in T st =
     ((case token st of None \<Rightarrow> True | Some t \<Rightarrow> t \<in> T) \<and>
      (case storage st ''ns_token'' of None \<Rightarrow> True | Some t \<Rightarrow> t \<in> T))"



text \<open>What a call ends with, which depends on the outcome of \<^verbatim>\<open>fetch\<close> only, not on the
  session: the two last lines of \<^verbatim>\<open>api.req\<close>.\<close>

definition call_result :: "fetch_outcome \<Rightarrow> exn + json" where
  "call_result out =
     (case out of
        Rejected m \<Rightarrow> Inl (TypeError m)
      | Resolved r \<Rightarrow>
          if \<not> ok r then Inl (failure_of (rbody r))
          else (case rbody r of Json v \<Rightarrow> Inr v | NotJson m \<Rightarrow> Inl (SyntaxError m)))"

text \<open>The requests for an analysis among those that have left the page.\<close>

definition analyze_requests :: "api_state \<Rightarrow> sent_request list" where
  "analyze_requests st = filter (\<lambda>q. url q = API st @ ''/meals/analyze'') (sent st)"

section \<open>Sample values\<close>

definition sample_state :: api_state where
  "sample_state = \<lparr>vite_api_url = None, token = Some ''tok-1'',
     storage = [''ns_token'' \<mapsto> ''tok-1''], reloads = 0, sent = []\<rparr>"

definition detail_response :: "nat \<Rightarrow> json \<Rightarrow> response" where
  "detail_response n d = \<lparr>status = n, rbody = Json (JObj [(''detail'', d)])\<rparr>"

definition json_response :: "json \<Rightarrow> response" where
  "json_response v = \<lparr>status = 200, rbody = Json v\<rparr>"

definition sample_scanner :: scanner where
  "sample_scanner = scanner_init\<lparr>image := Some ''data:image/png;base64,AAAA'',
     file' := Some ''AAAA'', subChecked := True\<rparr>"

definition sample_confirmation :: confirmation where
  "sample_confirmation = \<lparr>razorpay_order_id = ''order_1'', razorpay_payment_id = ''pay_1'',
     razorpay_signature = ''sig_1''\<rparr>"

definition sample_dashboard :: dashboard where
  "sample_dashboard = \<lparr>today = None, history = None, stats = None, dloading = True\<rparr>"





definition blocked_ui :: ui where
  "blocked_ui = \<lparr>api = sample_state, scanner = sample_scanner\<lparr>showPaywall := True\<rparr>,
     pay = paywall_init\<rparr>"

section \<open>The API layer: what a call does to the session\<close>

lemma req_send_fields [simp]:
  "token (req_send st p opts) = token st"
  "storage (req_send st p opts) = storage st"
  "reloads (req_send st p opts) = reloads st"
  "vite_api_url (req_send st p opts) = vite_api_url st"
  by (simp_all add: req_send_def Let_def)

lemma req_recv_sent [simp]: "sent (fst (req_recv st out)) = sent st"
  by (cases out) (simp_all add: req_recv_def Let_def clear_def reload_def)

lemma req_recv_result:
  "snd (req_recv st out) =
     (case out of
        Rejected m \<Rightarrow> Inl (TypeError m)
      | Resolved r \<Rightarrow>
          if \<not> ok r then Inl (failure_of (rbody r))
          else (case rbody r of Json v \<Rightarrow> Inr v | NotJson m \<Rightarrow> Inl (SyntaxError m)))"
  by (cases out) (simp_all add: req_recv_def Let_def)

lemma req_result: "snd (req st p opts out) = snd (req_recv st' out)"
  by (simp add: req_def req_recv_result)

lemma req_recv_fails: "\<not> succeeds out \<Longrightarrow> \<exists>e. snd (req_recv st out) = Inl e"
  by (cases out) (auto simp: req_recv_result split: rbody.splits)

lemma req_recv_succeeds: "succeeds out \<Longrightarrow> \<exists>v. snd (req_recv st out) = Inr v"
  by (cases out) (auto simp: req_recv_result split: rbody.splits)

text \<open>
  Claim C1, as amended. When the response has status 401, the credential is removed from
  \<^verbatim>\<open>api.token\<close> and from \<^verbatim>\<open>localStorage\<close> and \<^verbatim>\<open>window.location.reload()\<close> is called
  once, so that the page, once loaded again, starts unauthenticated. The call is not cut
  short there: it goes on into the test \<^verbatim>\<open>!r.ok\<close> that every non-success status takes and
  rejects with the error built from the body (its \<^verbatim>\<open>detail\<close>, or \<^verbatim>\<open>Failed\<close>).
\<close>

theorem unauthorized_clears_session_then_fails:
  "status r = 401 \<Longrightarrow>
     token (fst (req st p opts (Resolved r))) = None \<and>
     storage (fst (req st p opts (Resolved r))) ''ns_token'' = None \<and>
     reloads (fst (req st p opts (Resolved r))) = Suc (reloads st) \<and>
     \<not> authed (page_load (fst (req st p opts (Resolved r)))) \<and>
     snd (req st p opts (Resolved r)) = Inl (failure_of (rbody r))"
  by (simp add: req_def req_recv_def ok_def clear_def reload_def page_load_def authed_def Let_def)

theorem unauthorized_clears_session_then_fails_witness:
  "token (fst (req sample_state ''/profile'' no_opts
       (Resolved (detail_response 401 (JStr ''Invalid token''))))) = None \<and>
   snd (req sample_state ''/profile'' no_opts
       (Resolved (detail_response 401 (JStr ''Invalid token'')))) = Inl (Error ''Invalid token'')"
  using unauthorized_clears_session_then_fails
    [of "detail_response 401 (JStr ''Invalid token'')" sample_state "''/profile''" no_opts]
  by (simp add: detail_response_def failure_of_def)

text \<open>
  Claim C1 as stated fails: a 401 whose body has the detail \<^verbatim>\<open>Invalid token\<close> ends in the
  error of the generic path, the very value a 500 with the same body ends in.
\<close>

theorem unauthorized_takes_generic_error_path:
  "snd (req sample_state ''/profile'' no_opts
       (Resolved (detail_response 401 (JStr ''Invalid token'')))) =
     Inl (failure_of (rbody (detail_response 401 (JStr ''Invalid token'')))) \<and>
   failure_of (rbody (detail_response 401 (JStr ''Invalid token''))) = Error ''Invalid token'' \<and>
   snd (req sample_state ''/profile'' no_opts
       (Resolved (detail_response 401 (JStr ''Invalid token'')))) =
   snd (req sample_state ''/profile'' no_opts
       (Resolved (detail_response 500 (JStr ''Invalid token''))))"
  by (simp add: req_def req_recv_def ok_def Let_def detail_response_def failure_of_def)

subsection \<open>The credential after a 401\<close>

text \<open>The token and the stored token after an answer: as before, or both gone.\<close>

lemma req_recv_token:
  "token (fst (req_recv st out)) = token st \<and>
   storage (fst (req_recv st out)) ''ns_token'' = storage st ''ns_token'' \<or>
   token (fst (req_recv st out)) = None \<and> storage (fst (req_recv st out)) ''ns_token'' = None"
  by (cases out) (simp_all add: req_recv_def Let_def clear_def reload_def)

lemma req_send_sent:
  "plain opts \<Longrightarrow> \<exists>q. sent (req_send st p opts) = sent st @ [q] \<and>
     sheaders q ''Authorization'' =
       (case token st of None \<Rightarrow> None | Some t \<Rightarrow> if t \<noteq> [] then Some (''Bearer '' @ t) else None)"
  by (simp add: req_send_def Let_def plain_def split: option.splits)

lemma plain_call_opts: "plain (call_opts c)"
  by (cases c) (simp_all add: plain_def no_opts_def)

text \<open>A call that is not overlapped by another is its beginning followed by its answer.\<close>

lemma call_begin_answer: "fst (call st c out) = session_run st [Begin c, Answer out]"
  by (cases c) (simp_all add: api_get_def api_post_def api_put_def api_del_def req_def)

lemma begin_step:
  assumes "held_in T st"
  shows "\<exists>q. sent (session_step st (Begin c)) = sent st @ [q] \<and> from_tokens T q \<and>
             held_in T (session_step st (Begin c))"
proof -
  obtain q where q: "sent (req_send st (call_path c) (call_opts c)) = sent st @ [q]"
    "sheaders q ''Authorization'' =
       (case token st of None \<Rightarrow> None | Some t \<Rightarrow> if t \<noteq> [] then Some (''Bearer '' @ t) else None)"
    using req_send_sent [OF plain_call_opts] by blast
  have "from_tokens T q"
    using assms q(2) by (auto simp: from_tokens_def held_in_def split: option.splits)
  moreover have "held_in T (req_send st (call_path c) (call_opts c))"
    using assms by (simp add: held_in_def)
  ultimately show ?thesis
    using q(1) by simp
qed

lemma answer_step: "held_in T st \<Longrightarrow> held_in T (fst (req_recv st out))"
  using req_recv_token [of st out] by (auto simp: held_in_def split: option.splits)

lemma session_step_sent:
  assumes "held_in T st"
  shows "\<exists>xs. sent (session_step st ev) = sent st @ xs \<and>
              (\<forall>q\<in>set xs. from_tokens T q) \<and>
              held_in (T \<union> {t. ev = Login t}) (session_step st ev)"
proof (cases ev)
  case (Begin c)
  obtain q where "sent (session_step st (Begin c)) = sent st @ [q]" "from_tokens T q"
    "held_in T (session_step st (Begin c))"
    using begin_step [OF assms] by blast
  then have "sent (session_step st (Begin c)) = sent st @ [q] \<and>
      (\<forall>x\<in>set [q]. from_tokens T x) \<and> held_in T (session_step st (Begin c))"
    by simp
  then show ?thesis unfolding Begin by (intro exI [of _ "[q]"]) simp
next
  case (Answer out)
  then show ?thesis using answer_step [OF assms, of out] by simp
next
  case (Login t)
  then show ?thesis by (simp add: setToken_def held_in_def)
next
  case Logout
  then show ?thesis by (simp add: clear_def held_in_def)
next
  case PageLoad
  then show ?thesis using assms by (simp add: page_load_def held_in_def)
qed

lemma from_tokens_mono: "from_tokens T q \<Longrightarrow> T \<subseteq> T' \<Longrightarrow> from_tokens T' q"
  by (auto simp: from_tokens_def split: option.splits)

lemma session_run_sent:
  "held_in T st \<Longrightarrow>
   \<exists>xs. sent (session_run st evs) = sent st @ xs \<and>
        (\<forall>q\<in>set xs. from_tokens (T \<union> {t. Login t \<in> set evs}) q)"
proof (induction evs arbitrary: st T)
  case Nil
  then show ?case by simp
next
  case (Cons ev evs)
  let ?T' = "T \<union> {t. ev = Login t}"
  obtain xs where xs: "sent (session_step st ev) = sent st @ xs"
    "\<forall>q\<in>set xs. from_tokens T q" "held_in ?T' (session_step st ev)"
    using session_step_sent [OF Cons.prems] by blast
  obtain ys where ys: "sent (session_run (session_step st ev) evs) = sent (session_step st ev) @ ys"
    "\<forall>q\<in>set ys. from_tokens (?T' \<union> {t. Login t \<in> set evs}) q"
    using Cons.IH [OF xs(3)] by blast
  let ?U = "T \<union> {t. Login t \<in> set (ev # evs)}"
  have "\<forall>q\<in>set (xs @ ys). from_tokens ?U q"
    using xs(2) ys(2) by (auto intro: from_tokens_mono)
  then show ?case using xs(1) ys(1) by auto
qed

lemma sent_during_tokens:
  "held_in T st \<Longrightarrow> \<forall>q\<in>set (sent_during st evs). from_tokens (T \<union> {t. Login t \<in> set evs}) q"
  using session_run_sent [of T st evs] by (auto simp: sent_during_def)

lemma answer_401_clears: "status r = 401 \<Longrightarrow> held_in {} (fst (req_recv st (Resolved r)))"
  by (simp add: req_recv_def Let_def clear_def reload_def held_in_def)

text \<open>
  Claim C2. Once the answer to a call has come with status 401, whatever follows (calls
  begun, answers to calls that were waiting, page loads, logouts, logins, in any order
  and number), a request that leaves the page afterwards carries no \<^verbatim>\<open>Authorization\<close>
  header, unless a login has happened since; and then the credential it carries is one
  set by such a later login, never the one that was cleared. Both copies of the
  credential are gone: the field \<^verbatim>\<open>api.token\<close> and the entry of \<^verbatim>\<open>localStorage\<close> that a
  page load reads it from.
\<close>

theorem cleared_credential_never_attached:
  "status r = 401 \<Longrightarrow>
   \<forall>q\<in>set (sent_during (fst (req_recv st (Resolved r))) evs).
     \<forall>h. sheaders q ''Authorization'' = Some h \<longrightarrow> (\<exists>t. Login t \<in> set evs \<and> h = ''Bearer '' @ t)"
  using sent_during_tokens [OF answer_401_clears, of r st evs]
  by (auto simp: from_tokens_def split: option.splits)

theorem cleared_credential_witness:
  "sheaders (last (sent (fst (call sample_state (Get ''/profile'')
       (Resolved (detail_response 401 (JStr ''Invalid token''))))))) ''Authorization'' =
     Some ''Bearer tok-1'' \<and>
   map (\<lambda>q. sheaders q ''Authorization'')
     (sent_during (fst (req_recv (req_send sample_state ''/profile'' no_opts)
        (Resolved (detail_response 401 (JStr ''Invalid token'')))))
        [Begin (Get ''/dashboard/stats''), PageLoad, Answer (Rejected ''offline''),
         Begin (Del ''/meals/7''), Answer (Resolved (json_response (JObj [])))]) = [None, None]"
  using cleared_credential_never_attached
    [of "detail_response 401 (JStr ''Invalid token'')" "req_send sample_state ''/profile'' no_opts"
        "[Begin (Get ''/dashboard/stats''), PageLoad, Answer (Rejected ''offline''),
          Begin (Del ''/meals/7''), Answer (Resolved (json_response (JObj [])))]"]
  by (simp add: detail_response_def json_response_def sent_during_def sample_state_def
      api_get_def req_def req_send_def req_recv_def no_opts_def Let_def
      clear_def reload_def page_load_def ok_def is_FormData_def API_def)

subsection \<open>Other failures\<close>

lemma failure_of_cases:
  "failure_of (NotJson m) = Error ''Failed''"
  "failure_of (Json JNull) = TypeError null_property_message"
  "failure_of (Json (JBool b)) = Error ''Failed''"
  "failure_of (Json (JNum n)) = Error ''Failed''"
  "failure_of (Json (JStr t)) = Error ''Failed''"
  "failure_of (Json (JArr xs)) = Error ''Failed''"
  "failure_of (Json (JObj ms)) =
     (case map_of (rev ms) ''detail'' of
        None \<Rightarrow> Error ''Failed''
      | Some d \<Rightarrow>
          if truthy d then (case to_string d of Inl e \<Rightarrow> e | Inr m \<Rightarrow> Error m)
          else Error ''Failed'')"
  by (simp_all add: failure_of_def)

text \<open>
  Claim C3, as amended. A response with a non-success status other than 401 makes the call
  fail and leaves the session as it is. What is thrown depends on the body alone and
  carries no status:
  \<^item> a body that is not JSON, or is a JSON boolean, number, string or array, or is an object
    whose \<^verbatim>\<open>detail\<close> is missing or is false in the sense of JavaScript (\<^verbatim>\<open>false\<close>,
    \<^verbatim>\<open>null\<close>, zero, the empty string), gives \<^verbatim>\<open>new Error("Failed")\<close>;
  \<^item> an object whose \<^verbatim>\<open>detail\<close> is true in that sense gives \<^verbatim>\<open>new Error(detail)\<close>, whose
    message is \<^verbatim>\<open>String(detail)\<close>: the string itself for a string, \<^verbatim>\<open>[object Object]\<close>
    for an object without a member named \<^verbatim>\<open>toString\<close>; for an object with such a member
    the conversion throws, and the call fails with that \<^verbatim>\<open>TypeError\<close>;
  \<^item> a body that is the JSON value \<^verbatim>\<open>null\<close> makes the read of \<^verbatim>\<open>detail\<close> throw, and the
    call fails with that \<^verbatim>\<open>TypeError\<close>.

  The decoded body is returned only when the status is in 200 to 299.
\<close>

theorem failure_keeps_detail_loses_status:
  "(\<forall>r. out = Resolved r \<and> \<not> ok r \<and> status r \<noteq> 401 \<longrightarrow>
      req st p opts out = (req_send st p opts, Inl (failure_of (rbody r)))) \<and>
   (\<forall>v. snd (req st p opts out) = Inr v \<longrightarrow> (\<exists>r. out = Resolved r \<and> ok r \<and> rbody r = Json v)) \<and>
   (\<forall>m. failure_of (NotJson m) = Error ''Failed'') \<and>
   (\<forall>v. v \<noteq> JNull \<and> (\<forall>ms. v \<noteq> JObj ms) \<longrightarrow> failure_of (Json v) = Error ''Failed'') \<and>
   (\<forall>ms. \<not> truthy_opt (map_of (rev ms) ''detail'') \<longrightarrow>
      failure_of (Json (JObj ms)) = Error ''Failed'') \<and>
   (\<forall>ms d. map_of (rev ms) ''detail'' = Some d \<and> truthy d \<longrightarrow>
      failure_of (Json (JObj ms)) = (case to_string d of Inl e \<Rightarrow> e | Inr m \<Rightarrow> Error m)) \<and>
   (\<forall>t. to_string (JStr t) = Inr t) \<and>
   (\<forall>ms. map_of (rev ms) ''toString'' = None \<longrightarrow> to_string (JObj ms) = Inr ''[object Object]'') \<and>
   (\<forall>ms. map_of (rev ms) ''toString'' \<noteq> None \<longrightarrow> (\<exists>m. to_string (JObj ms) = Inl (TypeError m))) \<and>
   (\<exists>m. failure_of (Json JNull) = TypeError m)"
proof (intro conjI allI impI)
  fix r assume "out = Resolved r \<and> \<not> ok r \<and> status r \<noteq> 401"
  then show "req st p opts out = (req_send st p opts, Inl (failure_of (rbody r)))"
    by (simp add: req_def req_recv_def Let_def)
next
  fix v assume "snd (req st p opts out) = Inr v"
  then show "\<exists>r. out = Resolved r \<and> ok r \<and> rbody r = Json v"
    by (cases out) (auto simp: req_def req_recv_result split: if_splits rbody.splits)
next
  fix m show "failure_of (NotJson m) = Error ''Failed''"
    by (simp add: failure_of_cases)
next
  fix v assume "v \<noteq> JNull \<and> (\<forall>ms. v \<noteq> JObj ms)"
  then show "failure_of (Json v) = Error ''Failed''"
    by (cases v) (simp_all add: failure_of_cases)
next
  fix ms assume "\<not> truthy_opt (map_of (rev ms) ''detail'')"
  then show "failure_of (Json (JObj ms)) = Error ''Failed''"
    by (cases "map_of (rev ms) ''detail''") (simp_all add: failure_of_cases)
next
  fix ms d assume "map_of (rev ms) ''detail'' = Some d \<and> truthy d"
  then show "failure_of (Json (JObj ms)) = (case to_string d of Inl e \<Rightarrow> e | Inr m \<Rightarrow> Error m)"
    by (simp add: failure_of_cases)
next
  fix t show "to_string (JStr t) = Inr t" by simp
next
  fix ms :: "(string \<times> json) list"
  assume "map_of (rev ms) ''toString'' = None"
  then show "to_string (JObj ms) = Inr ''[object Object]''" by simp
next
  fix ms :: "(string \<times> json) list"
  assume "map_of (rev ms) ''toString'' \<noteq> None"
  then show "\<exists>m. to_string (JObj ms) = Inl (TypeError m)" by auto
next
  show "\<exists>m. failure_of (Json JNull) = TypeError m"
    by (simp add: failure_of_cases)
qed

theorem failure_keeps_detail_loses_status_witness:
  "req sample_state ''/meals/9'' no_opts (Resolved (detail_response 404 (JStr ''Meal not found''))) =
     (req_send sample_state ''/meals/9'' no_opts, Inl (Error ''Meal not found'')) \<and>
   snd (req sample_state ''/profile'' no_opts (Resolved (json_response (JObj [])))) = Inr (JObj []) \<and>
   failure_of (Json (JObj [(''detail'', JObj [(''toString'', JNum ''1'')])])) =
     TypeError not_primitive_message \<and>
   failure_of (Json (JObj [(''detail'', JArr [JStr ''a'', JNull, JNum ''3''])])) = Error ''a,,3''"
proof -
  note t = failure_keeps_detail_loses_status
    [of "Resolved (detail_response 404 (JStr ''Meal not found''))" sample_state
        "''/meals/9''" no_opts]
  have h: "\<not> ok (detail_response 404 (JStr ''Meal not found'')) \<and>
        status (detail_response 404 (JStr ''Meal not found'')) \<noteq> 401"
    by (simp add: ok_def detail_response_def)
  have d: "map_of (rev [(''detail'', JStr ''Meal not found'')]) ''detail'' =
      Some (JStr ''Meal not found'') \<and> truthy (JStr ''Meal not found'')"
    by simp
  from t d have "failure_of (Json (JObj [(''detail'', JStr ''Meal not found'')])) =
      (case to_string (JStr ''Meal not found'') of Inl e \<Rightarrow> e | Inr m \<Rightarrow> Error m)"
    by blast
  then have f: "failure_of (rbody (detail_response 404 (JStr ''Meal not found''))) =
      Error ''Meal not found''"
    by (simp add: detail_response_def)
  from t h have "req sample_state ''/meals/9'' no_opts
      (Resolved (detail_response 404 (JStr ''Meal not found''))) =
     (req_send sample_state ''/meals/9'' no_opts,
      Inl (failure_of (rbody (detail_response 404 (JStr ''Meal not found'')))))"
    by blast
  with f have 1: "req sample_state ''/meals/9'' no_opts
      (Resolved (detail_response 404 (JStr ''Meal not found''))) =
     (req_send sample_state ''/meals/9'' no_opts, Inl (Error ''Meal not found''))"
    by simp
  have 2: "snd (req sample_state ''/profile'' no_opts (Resolved (json_response (JObj [])))) =
      Inr (JObj [])"
    by (simp add: req_def req_recv_def json_response_def ok_def Let_def)
  have 3: "failure_of (Json (JObj [(''detail'', JObj [(''toString'', JNum ''1'')])])) =
     TypeError not_primitive_message"
    "failure_of (Json (JObj [(''detail'', JArr [JStr ''a'', JNull, JNum ''3''])])) = Error ''a,,3''"
    by (simp_all add: failure_of_cases)
  from 1 2 3 show ?thesis by simp
qed

text \<open>
  Claim C3 as stated fails: the error does not carry the status. A 404 and a 500 with the
  same body give the same value.
\<close>

theorem failure_carries_no_status:
  "status (detail_response 404 (JStr ''Gone'')) \<noteq> status (detail_response 500 (JStr ''Gone'')) \<and>
   snd (req sample_state ''/meals/9'' no_opts (Resolved (detail_response 404 (JStr ''Gone'')))) =
   snd (req sample_state ''/meals/9'' no_opts (Resolved (detail_response 500 (JStr ''Gone'')))) \<and>
   snd (req sample_state ''/meals/9'' no_opts (Resolved (detail_response 404 (JStr ''Gone'')))) =
     Inl (Error ''Gone'')"
  by (simp add: req_def req_recv_def ok_def Let_def detail_response_def failure_of_def)

section \<open>The subscription gate\<close>

lemma req_fails: "\<not> succeeds out \<Longrightarrow> \<exists>e. snd (req st p opts out) = Inl e"
  using req_recv_fails by (simp add: req_def)

lemma req_url:
  "\<exists>q. sent (fst (req st p opts out)) = sent st @ [q] \<and> url q = API st @ p \<and>
       smethod q = method' opts \<and> sbody q = body opts"
  by (simp add: req_def req_send_def Let_def)

lemma req_recv_base [simp]: "vite_api_url (fst (req_recv st out)) = vite_api_url st"
  by (cases out) (simp_all add: req_recv_def Let_def clear_def reload_def)

lemma req_base [simp]: "vite_api_url (fst (req st p opts out)) = vite_api_url st"
  by (simp add: req_def)

lemma API_cong: "vite_api_url st' = vite_api_url st \<Longrightarrow> API st' = API st"
  by (simp add: API_def)

text \<open>What \<open>scan\<close> does to the paywall flag.\<close>

lemma scan_picked:
  "file' sc = Some f \<Longrightarrow>
   snd (scan st sc out) =
     (case snd (req_recv st out) of
        Inr v \<Rightarrow> sc\<lparr>loading := False, error := None,
                   result := (case v of JNull \<Rightarrow> None | _ \<Rightarrow> Some v)\<rparr>
      | Inl e \<Rightarrow>
          if message e = ''subscription_required''
          then sc\<lparr>loading := False, error := None, showPaywall := True\<rparr>
          else sc\<lparr>loading := False, error := Some (message e)\<rparr>)"
  by (simp add: scan_def Let_def case_prod_unfold api_post_def req_def req_recv_result
      split: sum.splits fetch_outcome.splits)

lemma scan_showPaywall:
  "showPaywall (snd (scan st sc out)) =
     (showPaywall sc \<or>
      (file' sc \<noteq> None \<and>
       (\<exists>e. snd (req_recv st out) = Inl e \<and> message e = ''subscription_required'')))"
proof (cases "file' sc")
  case None
  then show ?thesis by (simp add: scan_def)
next
  case (Some f)
  show ?thesis
    using Some by (cases "snd (req_recv st out)") (simp_all add: scan_picked [OF Some])
qed

lemma scan_subChecked: "subChecked (snd (scan st sc out)) = subChecked sc"
proof (cases "file' sc")
  case None
  then show ?thesis by (simp add: scan_def)
next
  case (Some f)
  show ?thesis
    by (cases "snd (req_recv st out)") (simp_all add: scan_picked [OF Some])
qed

lemma check_subscription_keeps:
  "subChecked (snd (check_subscription st sc out))"
  "showPaywall sc \<Longrightarrow> showPaywall (snd (check_subscription st sc out))"
  "file' (snd (check_subscription st sc out)) = file' sc"
  by (simp_all add: check_subscription_def Let_def case_prod_unfold split: sum.splits)

lemma subscription_required_error:
  assumes "\<not> ok r" "rbody r = Json (JObj ms)"
    "map_of (rev ms) ''detail'' = Some (JStr ''subscription_required'')"
  shows "snd (req_recv st (Resolved r)) = Inl (Error ''subscription_required'')"
  using assms by (simp add: req_recv_result failure_of_def)

text \<open>
  Claim C4. Let a file be picked and let the answer to the call of \<^verbatim>\<open>/meals/analyze\<close>
  have a non-success status and a body whose \<^verbatim>\<open>detail\<close> is the string
  \<^verbatim>\<open>subscription_required\<close>. Then, whether the advisory check is answered before the scan
  or after it, and whatever its answer is (active, inactive, an error, no answer from the
  network), the screen ends up showing the paywall. The state of the session the second
  step starts from is left open, so the statement covers the one the first step leaves.
\<close>

theorem server_verdict_blocks_in_either_order:
  assumes "file' sc \<noteq> None" and "\<not> ok r" and "rbody r = Json (JObj ms)"
    and "map_of (rev ms) ''detail'' = Some (JStr ''subscription_required'')"
  shows "scanner_view (snd (scan st' (snd (check_subscription st sc advisory)) (Resolved r))) =
           PaywallView \<and>
         scanner_view (snd (check_subscription st' (snd (scan st sc (Resolved r))) advisory)) =
           PaywallView"
proof -
  have e: "snd (req_recv s (Resolved r)) = Inl (Error ''subscription_required'')" for s
    using subscription_required_error [OF assms(2-4)] .
  have "showPaywall (snd (scan st sc (Resolved r)))"
    using assms(1) e by (simp add: scan_showPaywall)
  then have 2: "scanner_view (snd (check_subscription st' (snd (scan st sc (Resolved r))) advisory)) =
      PaywallView"
    by (simp add: scanner_view_def check_subscription_keeps)
  have "showPaywall (snd (scan st' (snd (check_subscription st sc advisory)) (Resolved r)))"
    using assms(1) e by (simp add: scan_showPaywall check_subscription_keeps)
  then have 1: "scanner_view (snd (scan st' (snd (check_subscription st sc advisory)) (Resolved r))) =
      PaywallView"
    by (simp add: scanner_view_def scan_subChecked check_subscription_keeps)
  from 1 2 show ?thesis by simp
qed

theorem server_verdict_blocks_witness:
  "scanner_view (snd (scan sample_state
      (snd (check_subscription sample_state sample_scanner
         (Resolved (json_response (JObj [(''active'', JBool True)])))))
      (Resolved (detail_response 403 (JStr ''subscription_required''))))) = PaywallView \<and>
   scanner_view (snd (check_subscription sample_state (snd (scan sample_state sample_scanner
      (Resolved (detail_response 403 (JStr ''subscription_required'')))))
      (Resolved (json_response (JObj [(''active'', JBool True)]))))) = PaywallView \<and>
   scanner_view (snd (check_subscription sample_state sample_scanner
      (Resolved (json_response (JObj [(''active'', JBool True)]))))) = ScannerView"
proof -
  have "file' sample_scanner \<noteq> None"
    by (simp add: sample_scanner_def scanner_init_def)
  moreover have "\<not> ok (detail_response 403 (JStr ''subscription_required''))"
    by (simp add: ok_def detail_response_def)
  moreover have "rbody (detail_response 403 (JStr ''subscription_required'')) =
      Json (JObj [(''detail'', JStr ''subscription_required'')])"
    by (simp add: detail_response_def)
  moreover have "map_of (rev [(''detail'', JStr ''subscription_required'')]) ''detail'' =
      Some (JStr ''subscription_required'')"
    by simp
  moreover have "scanner_view (snd (check_subscription sample_state sample_scanner
      (Resolved (json_response (JObj [(''active'', JBool True)]))))) = ScannerView"
    by (simp add: check_subscription_def api_get_def req_def req_recv_def Let_def ok_def
        json_response_def scanner_view_def sample_scanner_def scanner_init_def)
  ultimately show ?thesis
    using server_verdict_blocks_in_either_order
      [of sample_scanner "detail_response 403 (JStr ''subscription_required'')"
          "[(''detail'', JStr ''subscription_required'')]" sample_state sample_state
          "Resolved (json_response (JObj [(''active'', JBool True)]))"]
    by simp
qed


section \<open>The payment sub-flow\<close>

lemma api_post_fails: "\<not> succeeds out \<Longrightarrow> \<exists>e. snd (api_post st p b out) = Inl e"
  using req_fails by (simp add: api_post_def)

lemma handler_api: "fst (handler st sc pw c out) =
  fst (api_post st ''/subscription/verify''
    (Some (JsonText (JObj
       [(''razorpay_order_id'', JStr (razorpay_order_id c)),
        (''razorpay_payment_id'', JStr (razorpay_payment_id c)),
        (''razorpay_signature'', JStr (razorpay_signature c))]))) out)"
  by (simp add: handler_def case_prod_unfold Let_def split: sum.splits)

lemma handler_fails:
  assumes "\<not> succeeds out"
  shows "snd (handler st sc pw c out) = (sc, pw\<lparr>perror := Some verification_failed\<rparr>)"
proof -
  obtain e where "snd (api_post st ''/subscription/verify''
    (Some (JsonText (JObj
       [(''razorpay_order_id'', JStr (razorpay_order_id c)),
        (''razorpay_payment_id'', JStr (razorpay_payment_id c)),
        (''razorpay_signature'', JStr (razorpay_signature c))]))) out) = Inl e"
    using api_post_fails [OF assms] by blast
  then show ?thesis by (simp add: handler_def case_prod_unfold Let_def)
qed

text \<open>
  Claim C5. When the widget reports a completed payment and the call of
  \<^verbatim>\<open>/subscription/verify\<close> does not succeed (no answer, a non-success status, or a body
  that is not JSON), no cell of the scanner screen changes, so the paywall stays; the
  error shown becomes the fixed text about verification and support, which is not the
  text of a failed payment and does not depend on the error the call ended with; and the
  handler has sent exactly one request, the \<^verbatim>\<open>POST\<close> of the verification.
\<close>

theorem verification_failure_stays_blocked:
  "\<not> succeeds out \<Longrightarrow>
     fst (snd (handler st sc pw c out)) = sc \<and>
     snd (snd (handler st sc pw c out)) = pw\<lparr>perror := Some verification_failed\<rparr> \<and>
     verification_failed \<noteq> ''Payment failed'' \<and>
     (\<exists>q. sent (fst (handler st sc pw c out)) = sent st @ [q] \<and>
          url q = API st @ ''/subscription/verify'' \<and> smethod q = Some ''POST'')"
proof -
  assume f: "\<not> succeeds out"
  let ?b = "Some (JsonText (JObj
       [(''razorpay_order_id'', JStr (razorpay_order_id c)),
        (''razorpay_payment_id'', JStr (razorpay_payment_id c)),
        (''razorpay_signature'', JStr (razorpay_signature c))]))"
  have "\<exists>q. sent (fst (handler st sc pw c out)) = sent st @ [q] \<and>
          url q = API st @ ''/subscription/verify'' \<and> smethod q = Some ''POST''"
    using req_url [of st "''/subscription/verify''"
        "\<lparr>method' = Some ''POST'', headers = None, body = ?b\<rparr>" out]
    by (auto simp: handler_api api_post_def)
  then show ?thesis
    by (simp add: handler_fails [OF f] verification_failed_def)
qed

theorem verification_failure_witness:
  "showPaywall (fst (snd (handler sample_state (sample_scanner\<lparr>showPaywall := True\<rparr>)
      paywall_init sample_confirmation
      (Resolved (detail_response 400 (JStr ''Signature mismatch'')))))) \<and>
   perror (snd (snd (handler sample_state (sample_scanner\<lparr>showPaywall := True\<rparr>)
      paywall_init sample_confirmation
      (Resolved (detail_response 400 (JStr ''Signature mismatch'')))))) =
     Some ''Payment verification failed. Contact support.'' \<and>
   length (sent (fst (handler sample_state (sample_scanner\<lparr>showPaywall := True\<rparr>)
      paywall_init sample_confirmation
      (Resolved (detail_response 400 (JStr ''Signature mismatch'')))))) = 1"
proof -
  have "\<not> succeeds (Resolved (detail_response 400 (JStr ''Signature mismatch'')))"
    by (simp add: ok_def detail_response_def)
  from verification_failure_stays_blocked [OF this, of sample_state
      "sample_scanner\<lparr>showPaywall := True\<rparr>" paywall_init sample_confirmation]
  show ?thesis
    by (auto simp: verification_failed_def sample_state_def)
qed

lemma req_not_analyze:
  "p \<noteq> ''/meals/analyze'' \<Longrightarrow> analyze_requests (fst (req st p opts out)) = analyze_requests st"
  using req_url [of st p opts out]
  by (auto simp: analyze_requests_def API_cong [of "fst (req st p opts out)" st])

lemma check_subscription_api:
  "fst (check_subscription st sc out) = fst (api_get st ''/subscription/status'' out)"
  by (simp add: check_subscription_def case_prod_unfold Let_def)

lemma load_subInfo_api:
  "fst (load_subInfo st pw out) = fst (api_get st ''/subscription/status'' out)"
  by (simp add: load_subInfo_def case_prod_unfold Let_def)

lemma handlePayment_api:
  "fst (handlePayment st pw out w) = fst (api_post st ''/subscription/create-order'' None out)"
  by (simp add: handlePayment_def case_prod_unfold Let_def)

lemma unmount_paywall_keeps [simp]:
  "scanner (unmount_paywall u) = scanner u" "api (unmount_paywall u) = api u"
  by (simp_all add: unmount_paywall_def)

lemma blocked_view: "scanner_view sc = PaywallView \<longleftrightarrow> subChecked sc \<and> showPaywall sc"
  by (simp add: scanner_view_def)

lemma ui_step_blocked:
  assumes "scanner_view (scanner u) = PaywallView" and "\<not> verified ev"
  shows "scanner_view (scanner (ui_step u ev)) = PaywallView \<and>
         analyze_requests (api (ui_step u ev)) = analyze_requests (api u)"
proof (cases ev)
  case (StatusArrived out)
  then show ?thesis
    using assms(1)
    by (simp add: ui_step_def case_prod_unfold blocked_view check_subscription_keeps
        check_subscription_api api_get_def req_not_analyze)
next
  case (ScanClicked out)
  then show ?thesis using assms(1) by (simp add: ui_step_def)
next
  case (PaywallStatusArrived out)
  then show ?thesis
    using assms(1)
    by (simp add: ui_step_def case_prod_unfold load_subInfo_api api_get_def req_not_analyze)
next
  case (PayClicked out w)
  then show ?thesis
    using assms(1)
    by (simp add: ui_step_def case_prod_unfold handlePayment_api api_post_def req_not_analyze)
next
  case (PaymentSucceeded c out)
  then have "\<not> succeeds out" using assms(2) by simp
  then show ?thesis
    using assms(1) PaymentSucceeded
    by (simp add: ui_step_def case_prod_unfold handler_fails handler_api api_post_def
        req_not_analyze)
next
  case (PaymentFailed d)
  then show ?thesis using assms(1) by (simp add: ui_step_def)
next
  case Dismissed
  then show ?thesis using assms(1) by (simp add: ui_step_def)
qed

text \<open>
  Claim C6. Start with the paywall shown and let the user, the server and the widget do
  anything, in any order. As long as no completed payment has been verified with success,
  the paywall is still shown and no request for an analysis has left the page. Every
  point of a run is the end of a shorter run, so the paywall goes away, and the blocked
  scan can be made again, only after a successful verification.
\<close>

theorem paywall_lifts_only_after_verification:
  "scanner_view (scanner u) = PaywallView \<Longrightarrow> \<not> list_ex verified evs \<Longrightarrow>
     scanner_view (scanner (ui_run u evs)) = PaywallView \<and>
     analyze_requests (api (ui_run u evs)) = analyze_requests (api u)"
proof (induction evs arbitrary: u)
  case Nil
  then show ?case by simp
next
  case (Cons ev evs)
  from Cons.prems have nv: "\<not> verified ev" "\<not> list_ex verified evs" by simp_all
  from ui_step_blocked [OF Cons.prems(1) nv(1)]
  have s: "scanner_view (scanner (ui_step u ev)) = PaywallView"
    "analyze_requests (api (ui_step u ev)) = analyze_requests (api u)" by simp_all
  from Cons.IH [OF s(1) nv(2)] s(2) show ?case by simp
qed

theorem paywall_lifts_witness:
  "scanner_view (scanner (ui_run blocked_ui
      [PayClicked (Resolved (json_response (JObj [(''key_id'', JStr ''rzp_1'')]))) None,
       PaymentFailed (Some ''Card declined''),
       PaymentSucceeded sample_confirmation (Rejected ''offline''),
       ScanClicked (Resolved (json_response (JObj [])))])) = PaywallView \<and>
   analyze_requests (api (ui_run blocked_ui
      [PayClicked (Resolved (json_response (JObj [(''key_id'', JStr ''rzp_1'')]))) None,
       PaymentFailed (Some ''Card declined''),
       PaymentSucceeded sample_confirmation (Rejected ''offline''),
       ScanClicked (Resolved (json_response (JObj [])))])) = [] \<and>
   scanner_view (scanner (ui_run blocked_ui
      [PaymentSucceeded sample_confirmation
         (Resolved (json_response (JObj [(''active'', JBool True)])))])) = ScannerView"
proof -
  have b: "scanner_view (scanner blocked_ui) = PaywallView"
    by (simp add: blocked_ui_def sample_scanner_def scanner_init_def scanner_view_def)
  have n: "\<not> list_ex verified
      [PayClicked (Resolved (json_response (JObj [(''key_id'', JStr ''rzp_1'')]))) None,
       PaymentFailed (Some ''Card declined''),
       PaymentSucceeded sample_confirmation (Rejected ''offline''),
       ScanClicked (Resolved (json_response (JObj [])))]"
    by simp
  have a: "analyze_requests (api blocked_ui) = []"
    by (simp add: analyze_requests_def blocked_ui_def sample_state_def)
  have p: "scanner_view (scanner (ui_run blocked_ui
      [PaymentSucceeded sample_confirmation
         (Resolved (json_response (JObj [(''active'', JBool True)])))])) = ScannerView"
    by (simp add: ui_step_def handler_def api_post_def req_def req_recv_def Let_def ok_def
        json_response_def onPaid_def scanner_view_def blocked_ui_def sample_scanner_def
        scanner_init_def unmount_paywall_def)
  from paywall_lifts_only_after_verification [OF b n] a p show ?thesis by simp
qed

section \<open>The advisory check\<close>

lemma api_get_result: "snd (api_get st p out) = snd (req_recv st out)"
  by (simp add: api_get_def req_result [of st p no_opts out st])

lemma check_subscription_scanner:
  "snd (check_subscription st sc out) =
     (case snd (req_recv st out) of
        Inl e \<Rightarrow> sc\<lparr>subChecked := True\<rparr>
      | Inr s \<Rightarrow>
          (case get_prop s ''active'' of
             Inl e \<Rightarrow> sc\<lparr>subChecked := True\<rparr>
           | Inr a \<Rightarrow> (if \<not> truthy_opt a then sc\<lparr>showPaywall := True\<rparr> else sc)
                        \<lparr>subChecked := True\<rparr>))"
  by (simp add: check_subscription_def case_prod_unfold Let_def api_get_result)

lemma recv_value:
  "snd (req_recv st out) = Inr s \<longleftrightarrow> (\<exists>r. out = Resolved r \<and> ok r \<and> rbody r = Json s)"
  by (cases out) (auto simp: req_recv_result split: rbody.splits)

text \<open>
  Claim C10, as amended. When the call of \<^verbatim>\<open>/subscription/status\<close> made on entry does not
  succeed, the screen only records that the check is over: no error is set, the paywall
  flag is as it was, and the cells of a screen that has just been mounted are those of
  the scanner view (for an answer with status 401 the API layer has also cleared the
  session and asked for the page to be loaded again). The same call made by the paywall
  leaves the paywall's cells as they are. The check turns the paywall on exactly when the
  call succeeds with a body that is not \<^verbatim>\<open>null\<close> and whose \<^verbatim>\<open>active\<close> is false in the sense
  of JavaScript: \<^verbatim>\<open>false\<close>, but also missing, \<^verbatim>\<open>null\<close>, zero or the empty string.
\<close>

theorem advisory_check_fails_open:
  "(\<not> succeeds out \<longrightarrow>
      snd (check_subscription st sc out) = sc\<lparr>subChecked := True\<rparr> \<and>
      scanner_view (snd (check_subscription st scanner_init out)) = ScannerView \<and>
      snd (load_subInfo st pw out) = pw) \<and>
   (\<forall>r. out = Resolved r \<and> status r = 401 \<longrightarrow>
      token (fst (check_subscription st sc out)) = None \<and>
      reloads (fst (check_subscription st sc out)) = Suc (reloads st)) \<and>
   showPaywall (snd (check_subscription st scanner_init out)) =
      (\<exists>r s a. out = Resolved r \<and> ok r \<and> rbody r = Json s \<and>
         get_prop s ''active'' = Inr a \<and> \<not> truthy_opt a) \<and>
   (\<forall>r ms b. out = Resolved r \<and> ok r \<and> rbody r = Json (JObj ms) \<and>
       map_of (rev ms) ''active'' = Some (JBool b) \<longrightarrow>
       scanner_view (snd (check_subscription st scanner_init out)) =
         (if b then ScannerView else PaywallView))"
proof -
  have 1: "snd (check_subscription st sc out) = sc\<lparr>subChecked := True\<rparr> \<and>
      scanner_view (snd (check_subscription st scanner_init out)) = ScannerView \<and>
      snd (load_subInfo st pw out) = pw" if h: "\<not> succeeds out"
  proof -
    obtain e where e: "snd (req_recv st out) = Inl e"
      using req_recv_fails [OF h] by blast
    show ?thesis
      by (simp add: check_subscription_scanner e scanner_view_def scanner_init_def
          load_subInfo_def case_prod_unfold Let_def api_get_result)
  qed
  have 2: "showPaywall (snd (check_subscription st scanner_init out)) =
      (\<exists>r s a. out = Resolved r \<and> ok r \<and> rbody r = Json s \<and>
         get_prop s ''active'' = Inr a \<and> \<not> truthy_opt a)"
  proof (cases "snd (req_recv st out)")
    case (Inl e)
    then have "\<not> (\<exists>r s. out = Resolved r \<and> ok r \<and> rbody r = Json s)"
      using recv_value [of st out] by auto
    with Inl show ?thesis
      by (auto simp: check_subscription_scanner scanner_init_def)
  next
    case (Inr s)
    then obtain r0 where r0: "out = Resolved r0" "ok r0" "rbody r0 = Json s"
      by (auto simp: recv_value)
    have "showPaywall (snd (check_subscription st scanner_init out)) =
        (\<exists>a. get_prop s ''active'' = Inr a \<and> \<not> truthy_opt a)"
      using Inr
      by (cases "get_prop s ''active''")
        (auto simp: check_subscription_scanner scanner_init_def)
    also have "\<dots> = (\<exists>r s' a. out = Resolved r \<and> ok r \<and> rbody r = Json s' \<and>
         get_prop s' ''active'' = Inr a \<and> \<not> truthy_opt a)"
      using r0 by auto
    finally show ?thesis .
  qed
  have 3: "scanner_view (snd (check_subscription st scanner_init out)) =
         (if b then ScannerView else PaywallView)"
    if "out = Resolved r" "ok r" "rbody r = Json (JObj ms)"
       "map_of (rev ms) ''active'' = Some (JBool b)" for r ms b
  proof -
    have "snd (req_recv st out) = Inr (JObj ms)"
      using that by (simp add: recv_value)
    then show ?thesis
      using that(4)
      by (simp add: check_subscription_scanner scanner_view_def scanner_init_def)
  qed
  have 4: "token (fst (check_subscription st sc out)) = None \<and>
      reloads (fst (check_subscription st sc out)) = Suc (reloads st)"
    if "out = Resolved r" "status r = 401" for r
    using that
    by (simp add: check_subscription_api api_get_def req_def req_recv_def Let_def
        clear_def reload_def)
  show ?thesis
  proof (intro conjI allI impI)
    assume "\<not> succeeds out"
    then show "snd (check_subscription st sc out) = sc\<lparr>subChecked := True\<rparr>"
      "scanner_view (snd (check_subscription st scanner_init out)) = ScannerView"
      "snd (load_subInfo st pw out) = pw"
      using 1 by simp_all
  next
    fix r assume "out = Resolved r \<and> status r = 401"
    then show "token (fst (check_subscription st sc out)) = None"
      "reloads (fst (check_subscription st sc out)) = Suc (reloads st)"
      using 4 by simp_all
  next
    show "showPaywall (snd (check_subscription st scanner_init out)) =
      (\<exists>r s a. out = Resolved r \<and> ok r \<and> rbody r = Json s \<and>
         get_prop s ''active'' = Inr a \<and> \<not> truthy_opt a)"
      by (rule 2)
  next
    fix r ms b
    assume "out = Resolved r \<and> ok r \<and> rbody r = Json (JObj ms) \<and>
       map_of (rev ms) ''active'' = Some (JBool b)"
    then show "scanner_view (snd (check_subscription st scanner_init out)) =
         (if b then ScannerView else PaywallView)"
      using 3 by simp
  qed
qed

theorem advisory_check_witness:
  "scanner_view (snd (check_subscription sample_state scanner_init (Rejected ''offline''))) =
     ScannerView \<and>
   scanner_view (snd (check_subscription sample_state scanner_init
     (Resolved (detail_response 500 (JStr ''Internal error''))))) = ScannerView \<and>
   scanner_view (snd (check_subscription sample_state scanner_init
     (Resolved (json_response (JObj [(''active'', JBool False)]))))) = PaywallView"
proof -
  have "\<not> succeeds (Rejected ''offline'')"
    by simp
  then have 1: "scanner_view (snd (check_subscription sample_state scanner_init
      (Rejected ''offline''))) = ScannerView"
    using advisory_check_fails_open [of "Rejected ''offline''" sample_state scanner_init]
    by blast
  have "\<not> succeeds (Resolved (detail_response 500 (JStr ''Internal error'')))"
    by (simp add: ok_def detail_response_def)
  then have 2: "scanner_view (snd (check_subscription sample_state scanner_init
      (Resolved (detail_response 500 (JStr ''Internal error''))))) = ScannerView"
    using advisory_check_fails_open
      [of "Resolved (detail_response 500 (JStr ''Internal error''))" sample_state scanner_init]
    by blast
  have "ok (json_response (JObj [(''active'', JBool False)]))"
    "rbody (json_response (JObj [(''active'', JBool False)])) =
      Json (JObj [(''active'', JBool False)])"
    "map_of (rev [(''active'', JBool False)]) ''active'' = Some (JBool False)"
    by (simp_all add: ok_def json_response_def)
  then have 3: "scanner_view (snd (check_subscription sample_state scanner_init
     (Resolved (json_response (JObj [(''active'', JBool False)]))))) =
       (if False then ScannerView else PaywallView)"
    using advisory_check_fails_open
      [of "Resolved (json_response (JObj [(''active'', JBool False)]))" sample_state]
    by blast
  from 1 2 3 show ?thesis by simp
qed

text \<open>
  Claim C10 as stated fails where it says that only \<^verbatim>\<open>active == false\<close> brings the paywall
  up before a scan: a successful answer whose body is the empty object, where \<^verbatim>\<open>active\<close> is
  missing, and one where \<^verbatim>\<open>active\<close> is \<^verbatim>\<open>null\<close>, bring it up too.
\<close>

theorem missing_active_shows_paywall:
  "succeeds (Resolved (json_response (JObj []))) \<and>
   get_prop (JObj []) ''active'' = Inr None \<and>
   scanner_view (snd (check_subscription sample_state scanner_init
     (Resolved (json_response (JObj []))))) = PaywallView \<and>
   get_prop (JObj [(''active'', JNull)]) ''active'' = Inr (Some JNull) \<and>
   scanner_view (snd (check_subscription sample_state scanner_init
     (Resolved (json_response (JObj [(''active'', JNull)]))))) = PaywallView"
  by (simp add: check_subscription_def api_get_def req_def req_recv_def Let_def ok_def
      json_response_def scanner_view_def scanner_init_def)

section \<open>The dashboard\<close>

lemma req_send_urls:
  "map url (sent (req_send st p opts)) = map url (sent st) @ [API st @ p]"
  by (simp add: req_send_def Let_def)

lemma API_req_send: "API (req_send st p opts) = API st"
  by (simp add: API_def)

lemma load_api_sent:
  "sent (fst (load st d o1 o2 o3)) =
     sent (req_send (req_send (req_send st ''/dashboard/today'' no_opts)
       ''/dashboard/history?days=7'' no_opts) ''/dashboard/stats'' no_opts)"
  by (simp add: load_def Let_def case_prod_unfold)

lemma recv_call_result: "snd (req_recv st out) = call_result out"
  by (simp add: req_recv_result call_result_def)

lemma call_result_fails: "\<not> succeeds out \<Longrightarrow> \<exists>e. call_result out = Inl e"
  using req_recv_fails [of out sample_state] by (simp add: recv_call_result)

lemma call_result_succeeds: "succeeds out \<Longrightarrow> \<exists>v. call_result out = Inr v"
  using req_recv_succeeds [of out sample_state] by (simp add: recv_call_result)

lemma load_dashboard:
  "snd (load st d o1 o2 o3) =
     (case (call_result o1, call_result o2, call_result o3) of
        (Inr t, Inr h, Inr s) \<Rightarrow> d\<lparr>today := Some t, history := Some h, stats := Some s\<rparr>
      | _ \<Rightarrow> d)\<lparr>dloading := False\<rparr>"
  by (simp add: load_def Let_def split_beta recv_call_result)

text \<open>
  Claim C9. The three requests of the dashboard leave the page together, before any
  answer is looked at and so whatever the answers are. If one of the three calls fails,
  none of the three cells \<^verbatim>\<open>today\<close>, \<^verbatim>\<open>history\<close>, \<^verbatim>\<open>stats\<close> changes and only the
  loading flag is reset; if all three succeed, the three cells take the three values.
\<close>

theorem dashboard_join_all_or_nothing:
  "(\<not> succeeds o1 \<or> \<not> succeeds o2 \<or> \<not> succeeds o3 \<longrightarrow>
      snd (load st d o1 o2 o3) = d\<lparr>dloading := False\<rparr>) \<and>
   (succeeds o1 \<and> succeeds o2 \<and> succeeds o3 \<longrightarrow>
      (\<exists>t h s. snd (req_recv st o1) = Inr t \<and> snd (req_recv st o2) = Inr h \<and>
         snd (req_recv st o3) = Inr s \<and>
         snd (load st d o1 o2 o3) =
           d\<lparr>today := Some t, history := Some h, stats := Some s, dloading := False\<rparr>)) \<and>
   map url (sent (fst (load st d o1 o2 o3))) =
     map url (sent st) @ [API st @ ''/dashboard/today'', API st @ ''/dashboard/history?days=7'',
       API st @ ''/dashboard/stats'']"
proof -
  have f: "snd (load st d o1 o2 o3) = d\<lparr>dloading := False\<rparr>"
    if "\<not> succeeds o1 \<or> \<not> succeeds o2 \<or> \<not> succeeds o3"
  proof -
    from that have "(\<exists>e. call_result o1 = Inl e) \<or> (\<exists>e. call_result o2 = Inl e) \<or>
        (\<exists>e. call_result o3 = Inl e)"
      using call_result_fails by blast
    then show ?thesis
    proof (elim disjE exE)
      fix e assume "call_result o1 = Inl e"
      then show ?thesis by (simp add: load_dashboard)
    next
      fix e assume "call_result o2 = Inl e"
      then show ?thesis by (cases "call_result o1") (simp_all add: load_dashboard)
    next
      fix e assume "call_result o3 = Inl e"
      then show ?thesis
        by (cases "call_result o1"; cases "call_result o2") (simp_all add: load_dashboard)
    qed
  qed
  have s: "\<exists>t h s. snd (req_recv st o1) = Inr t \<and> snd (req_recv st o2) = Inr h \<and>
         snd (req_recv st o3) = Inr s \<and>
         snd (load st d o1 o2 o3) =
           d\<lparr>today := Some t, history := Some h, stats := Some s, dloading := False\<rparr>"
    if ok3: "succeeds o1 \<and> succeeds o2 \<and> succeeds o3"
  proof -
    obtain t where t: "call_result o1 = Inr t" using ok3 call_result_succeeds by blast
    obtain h where h: "call_result o2 = Inr h" using ok3 call_result_succeeds by blast
    obtain s where s: "call_result o3 = Inr s" using ok3 call_result_succeeds by blast
    have "snd (load st d o1 o2 o3) =
        d\<lparr>today := Some t, history := Some h, stats := Some s, dloading := False\<rparr>"
      by (simp add: load_dashboard t h s)
    then show ?thesis
      by (simp add: recv_call_result t h s)
  qed
  have l: "map url (sent (fst (load st d o1 o2 o3))) =
     map url (sent st) @ [API st @ ''/dashboard/today'', API st @ ''/dashboard/history?days=7'',
       API st @ ''/dashboard/stats'']"
    by (simp add: load_api_sent req_send_urls API_req_send)
  show ?thesis
  proof (intro conjI impI)
    assume "\<not> succeeds o1 \<or> \<not> succeeds o2 \<or> \<not> succeeds o3"
    then show "snd (load st d o1 o2 o3) = d\<lparr>dloading := False\<rparr>" by (rule f)
  next
    assume "succeeds o1 \<and> succeeds o2 \<and> succeeds o3"
    then show "\<exists>t h s. snd (req_recv st o1) = Inr t \<and> snd (req_recv st o2) = Inr h \<and>
         snd (req_recv st o3) = Inr s \<and>
         snd (load st d o1 o2 o3) =
           d\<lparr>today := Some t, history := Some h, stats := Some s, dloading := False\<rparr>"
      by (rule s)
  next
    show "map url (sent (fst (load st d o1 o2 o3))) =
     map url (sent st) @ [API st @ ''/dashboard/today'', API st @ ''/dashboard/history?days=7'',
       API st @ ''/dashboard/stats'']"
      by (rule l)
  qed
qed

theorem dashboard_join_witness:
  "snd (load sample_state sample_dashboard
      (Resolved (json_response (JObj [(''date'', JStr ''2024-05-01'')])))
      (Rejected ''Failed to fetch'')
      (Resolved (json_response (JObj [(''total_meals'', JNum ''12'')])))) =
     sample_dashboard\<lparr>dloading := False\<rparr> \<and>
   today (snd (load sample_state sample_dashboard
      (Resolved (json_response (JObj [(''date'', JStr ''2024-05-01'')])))
      (Rejected ''Failed to fetch'')
      (Resolved (json_response (JObj [(''total_meals'', JNum ''12'')]))))) = None"
proof -
  have "\<not> succeeds (Rejected ''Failed to fetch'')" by simp
  then have "snd (load sample_state sample_dashboard
      (Resolved (json_response (JObj [(''date'', JStr ''2024-05-01'')])))
      (Rejected ''Failed to fetch'')
      (Resolved (json_response (JObj [(''total_meals'', JNum ''12'')])))) =
     sample_dashboard\<lparr>dloading := False\<rparr>"
    using dashboard_join_all_or_nothing [of
      "Resolved (json_response (JObj [(''date'', JStr ''2024-05-01'')]))"
      "Rejected ''Failed to fetch''"
      "Resolved (json_response (JObj [(''total_meals'', JNum ''12'')]))"
      sample_state sample_dashboard]
    by blast
  then show ?thesis
    by (simp add: sample_dashboard_def)
qed

section \<open>The offline cache\<close>







subsection \<open>One cache\<close>









subsection \<open>The storage\<close>













subsection \<open>The listener\<close>










end
